theory Spec2Isabelle
  imports Complex_Main
begin

section \<open>Values shared by the models\<close>

text \<open>
  The exceptions the Python sources raise themselves, and those of the numeric
  libraries that the models need.  A function that may raise returns
  \<open>error + 'a\<close>, with \<open>Inl\<close> for the exception.
\<close>

datatype error =
    NotImplementedError
  | AssertionError
  | TypeError
  | KeyError
  | IndexError
  | RuntimeError
  | ValueError
  | AttributeError
  | InvalidArgumentError

text \<open>Sequencing: an exception of the first computation ends the whole.\<close>

definition and_then :: "error + 'a \<Rightarrow> ('a \<Rightarrow> error + 'b) \<Rightarrow> error + 'b" where
  "and_then r f = (case r of Inl e \<Rightarrow> Inl e | Inr v \<Rightarrow> f v)"

text \<open>
  A tensor is its shape and its elements in row-major order.  \<open>'e\<close> is the type of the
  elements: the floating-point numbers of the tensor's dtype.
\<close>

record 'e tensor =
  shape :: "nat list"
  data :: "'e list"

subsection \<open>The tensor operations used by the transforms\<close>

text \<open>
  The functions of the tensor library that the transforms call are parameters: the
  sources only call them.  \<open>x.mean()\<close> and \<open>x.std()\<close> reduce all elements to one
  number; \<open>e_sub\<close> and \<open>e_div\<close> are the subtraction and the division of two elements.
  How these round, overflow and order their additions is the library's floating-point
  arithmetic, and nothing is assumed about it.  \<open>transpose(1, 0)\<close>, \<open>@\<close> and
  \<open>sum(dim=0)\<close> return new tensors or raise.
\<close>

record 'e torch_ops =
  t_mean :: "'e tensor \<Rightarrow> 'e"
  t_std :: "'e tensor \<Rightarrow> 'e"
  e_sub :: "'e \<Rightarrow> 'e \<Rightarrow> 'e"
  e_div :: "'e \<Rightarrow> 'e \<Rightarrow> 'e"
  transpose10 :: "'e tensor \<Rightarrow> error + 'e tensor"
  matmul :: "'e tensor \<Rightarrow> 'e tensor \<Rightarrow> error + 'e tensor"
  sum_dim0 :: "'e tensor \<Rightarrow> error + 'e tensor"

text \<open>\<open>x - s\<close> and \<open>x / s\<close> for a number \<open>s\<close>: broadcast over the elements.\<close>

definition tsub :: "'e torch_ops \<Rightarrow> 'e tensor \<Rightarrow> 'e \<Rightarrow> 'e tensor" where
  "tsub ops x s = x\<lparr>data := map (\<lambda>v. e_sub ops v s) (data x)\<rparr>"

definition tdiv :: "'e torch_ops \<Rightarrow> 'e tensor \<Rightarrow> 'e \<Rightarrow> 'e tensor" where
  "tdiv ops x s = x\<lparr>data := map (\<lambda>v. e_div ops v s) (data x)\<rparr>"

section \<open>Transforms (dn3/transforms/basic.py)\<close>

text \<open>
  What a transform's \<open>__call__\<close> returns: a tensor, or a pair of tensors
  (\<open>MappingDeep1010\<close> with \<open>return_mask\<close>).
\<close>

datatype 'e tresult = One "'e tensor" | Two "'e tensor" "'e tensor"

text \<open>
  \<open>BaseTransform\<close>: the only field is \<open>only_trial_data\<close>.  Every \<open>__call__\<close> is
  modelled as a function from the object and the input to the object after the call
  and the result, so that a write to a field would show.
\<close>

record BaseTransform =
  only_trial_data :: bool

definition BaseTransform_init :: "bool \<Rightarrow> BaseTransform" where
  "BaseTransform_init otd = \<lparr>only_trial_data = otd\<rparr>"

definition BaseTransform_call ::
  "BaseTransform \<Rightarrow> 'e tensor \<Rightarrow> BaseTransform \<times> (error + 'e tresult)" where
  "BaseTransform_call self x = (self, Inl NotImplementedError)"

definition new_sequence_length_base :: "BaseTransform \<Rightarrow> int \<Rightarrow> int" where
  "new_sequence_length_base self old_sequence_length = old_sequence_length"

subsection \<open>ZScore\<close>

definition ZScore_call ::
  "'e torch_ops \<Rightarrow> BaseTransform \<Rightarrow> 'e tensor \<Rightarrow> BaseTransform \<times> (error + 'e tresult)" where
  "ZScore_call ops self x =
     (self, Inr (One (tdiv ops (tsub ops x (t_mean ops x)) (t_std ops x))))"

text \<open>The reference of the tests (tests/testTransforms.py, \<open>simple_zscoring\<close>).\<close>

definition simple_zscoring :: "'e torch_ops \<Rightarrow> 'e tensor \<Rightarrow> 'e tensor" where
  "simple_zscoring ops d = tdiv ops (tsub ops d (t_mean ops d)) (t_std ops d)"

subsection \<open>TemporalPadding\<close>

text \<open>
  \<open>torch.nn.functional.pad(x, pad, mode, value)\<close>, from the library's documentation:
  \<open>pad\<close> lists (left, right) amounts starting from the last dimension; its length must
  be even and at most twice the number of dimensions of \<open>x\<close>, otherwise the call raises.
  In mode \<open>'constant'\<close> the new positions hold \<open>value\<close>, a negative amount crops, and a
  crop of more than the dimension holds raises.
\<close>

fun pairs :: "int list \<Rightarrow> (int \<times> int) list" where
  "pairs (a # b # rest) = (a, b) # pairs rest"
| "pairs rest = []"

definition dim_pads :: "nat list \<Rightarrow> int list \<Rightarrow> (int \<times> int) list" where
  "dim_pads shp pad = replicate (length shp - length pad div 2) (0, 0) @ rev (pairs pad)"

definition crop_ok :: "nat \<Rightarrow> int \<times> int \<Rightarrow> bool" where
  "crop_ok n p = (0 \<le> int n + min (fst p) 0 + min (snd p) 0)"

definition new_dim :: "nat \<Rightarrow> int \<times> int \<Rightarrow> nat" where
  "new_dim n p = nat (int n + fst p + snd p)"

definition pad_seq :: "int \<Rightarrow> int \<Rightarrow> 'a \<Rightarrow> 'a list \<Rightarrow> 'a list" where
  "pad_seq l r fill xs =
     replicate (nat l) fill
     @ take (nat (int (length xs) + min l 0 + min r 0)) (drop (nat (- l)) xs)
     @ replicate (nat r) fill"

fun pad_nd :: "nat list \<Rightarrow> (int \<times> int) list \<Rightarrow> 'e \<Rightarrow> 'e list \<Rightarrow> 'e list" where
  "pad_nd [] ps v ds = ds"
| "pad_nd (n # shp) ps v ds =
     (let p = (case ps of [] \<Rightarrow> (0, 0) | q # _ \<Rightarrow> q);
          k = prod_list shp;
          rows = map (\<lambda>i. pad_nd shp (tl ps) v (take k (drop (i * k) ds))) [0..<n];
          fill = replicate (prod_list (map2 new_dim shp (tl ps))) v
      in concat (pad_seq (fst p) (snd p) fill rows))"

definition constant_pad_nd :: "'e tensor \<Rightarrow> int list \<Rightarrow> 'e \<Rightarrow> error + 'e tensor" where
  "constant_pad_nd x pad v =
     (let ps = dim_pads (shape x) pad in
      if list_all2 crop_ok (shape x) ps
      then Inr \<lparr>shape = map2 new_dim (shape x) ps, data = pad_nd (shape x) ps v (data x)\<rparr>
      else Inl RuntimeError)"

text \<open>
  The other padding modes (\<open>'reflect'\<close>, \<open>'replicate'\<close>, \<open>'circular'\<close>) are a parameter:
  they come after the two checks on the length of \<open>pad\<close>.
\<close>

definition torch_pad ::
  "(string \<Rightarrow> 'e tensor \<Rightarrow> int list \<Rightarrow> error + 'e tensor)
   \<Rightarrow> 'e tensor \<Rightarrow> int list \<Rightarrow> string \<Rightarrow> 'e \<Rightarrow> error + 'e tensor" where
  "torch_pad other_modes x pad mode v =
     (if length pad mod 2 \<noteq> 0 then Inl RuntimeError
      else if length (shape x) < length pad div 2 then Inl RuntimeError
      else if mode = ''constant'' then constant_pad_nd x pad v
      else other_modes mode x pad)"

record 'e TemporalPadding = BaseTransform +
  start_padding :: int
  end_padding :: int
  pad_mode :: string
  constant_value :: 'e

text \<open>
  \<open>TemporalPadding(start_padding, end_padding, mode='constant', constant_value=0)\<close>;
  with the two defaults, \<open>zero\<close> is the number 0 of the element type.
\<close>

definition TemporalPadding_init :: "int \<Rightarrow> int \<Rightarrow> string \<Rightarrow> 'e \<Rightarrow> 'e TemporalPadding" where
  "TemporalPadding_init sp ep m cv =
     \<lparr>only_trial_data = True, start_padding = sp, end_padding = ep,
      pad_mode = m, constant_value = cv\<rparr>"

definition TemporalPadding_default :: "'e \<Rightarrow> int \<Rightarrow> int \<Rightarrow> 'e TemporalPadding" where
  "TemporalPadding_default zero sp ep = TemporalPadding_init sp ep ''constant'' zero"

text \<open>
  \<open>__call__\<close>: \<open>x.shape[-1]\<close> raises IndexError on a tensor without dimensions;
  \<open>range(2, x.shape[-1])\<close> has \<open>x.shape[-1] - 2\<close> elements, none when that is negative.
\<close>

definition TemporalPadding_call ::
  "(string \<Rightarrow> 'e tensor \<Rightarrow> int list \<Rightarrow> error + 'e tensor)
   \<Rightarrow> 'e TemporalPadding \<Rightarrow> 'e tensor \<Rightarrow> 'e TemporalPadding \<times> (error + 'e tresult)" where
  "TemporalPadding_call other_modes self x =
     (if shape x = [] then (self, Inl IndexError)
      else
        let pad = [start_padding self, end_padding self] @ replicate (last (shape x) - 2) 0
        in (self, map_sum id One (torch_pad other_modes x pad (pad_mode self) (constant_value self))))"

definition new_sequence_length :: "'e TemporalPadding \<Rightarrow> int \<Rightarrow> int" where
  "new_sequence_length self old_sequence_length =
     old_sequence_length + start_padding self + end_padding self"

subsection \<open>MappingDeep1010\<close>

text \<open>
  The mapping matrix is computed by \<open>map_channels_deep_1010\<close> of the channels module
  when the object is built; here it is a field given at construction.
\<close>

record 'e MappingDeep1010 = BaseTransform +
  mapping :: "'e tensor"
  add_scale_ind :: bool
  return_mask :: bool

definition MappingDeep1010_call ::
  "'e torch_ops \<Rightarrow> 'e MappingDeep1010 \<Rightarrow> 'e tensor
   \<Rightarrow> 'e MappingDeep1010 \<times> (error + 'e tresult)" where
  "MappingDeep1010_call ops self x =
     (self,
      and_then (transpose10 ops x) (\<lambda>xt.
      and_then (matmul ops xt (mapping self)) (\<lambda>m.
      and_then (transpose10 ops m) (\<lambda>x'.
        if return_mask self
        then and_then (sum_dim0 ops (mapping self)) (\<lambda>m0. Inr (Two x' m0))
        else Inr (One x')))))"

subsection \<open>Any transform of the library\<close>

datatype 'e transform =
    TBase BaseTransform
  | TZScore BaseTransform
  | TPadding "'e TemporalPadding"
  | TMapping "'e MappingDeep1010"

definition transform_call ::
  "(string \<Rightarrow> 'e tensor \<Rightarrow> int list \<Rightarrow> error + 'e tensor) \<Rightarrow> 'e torch_ops
   \<Rightarrow> 'e transform \<Rightarrow> 'e tensor \<Rightarrow> 'e transform \<times> (error + 'e tresult)" where
  "transform_call other_modes ops t x =
     (case t of
        TBase s \<Rightarrow> map_prod TBase id (BaseTransform_call s x)
      | TZScore s \<Rightarrow> map_prod TZScore id (ZScore_call ops s x)
      | TPadding s \<Rightarrow> map_prod TPadding id (TemporalPadding_call other_modes s x)
      | TMapping s \<Rightarrow> map_prod TMapping id (MappingDeep1010_call ops s x))"

section \<open>Trainables (dn3/trainable/trainable.py)\<close>

subsection \<open>Metric dictionaries\<close>

text \<open>
  An \<open>OrderedDict\<close> of metrics: the keys in insertion order, each once.  \<open>'v\<close> is the
  type of the metric values, the numbers that \<open>calculate_metrics\<close> returns.
\<close>

type_synonym 'v metrics = "(string \<times> 'v) list"

text \<open>\<open>d[k] = v\<close>: replaces the value of a present key in place, appends a new key.\<close>

definition dict_set :: "string \<Rightarrow> 'v \<Rightarrow> 'v metrics \<Rightarrow> 'v metrics" where
  "dict_set k v d =
     (if map_of d k = None then d @ [(k, v)]
      else map (\<lambda>kv. if fst kv = k then (k, v) else kv) d)"

definition setdefault :: "string \<Rightarrow> 'v \<Rightarrow> 'v metrics \<Rightarrow> 'v metrics" where
  "setdefault k v d = (if map_of d k = None then d @ [(k, v)] else d)"

text \<open>\<open>d.update(other)\<close>.\<close>

definition dict_update :: "'v metrics \<Rightarrow> 'v metrics \<Rightarrow> 'v metrics" where
  "dict_update d other = foldl (\<lambda>acc kv. dict_set (fst kv) (snd kv) acc) d other"

subsection \<open>The arithmetic of the metric values\<close>

text \<open>
  The running average of \<open>evaluate\<close> multiplies, adds and divides metric values, and
  multiplies and divides by the number of the iteration, a Python \<open>int\<close> that the
  arithmetic converts.  The arithmetic is a parameter of the model; two instances follow.
  The divisor of \<open>a_div\<close> in \<open>evaluate\<close> is the number of an iteration, never zero.
\<close>

record 'v arith =
  a_mul :: "'v \<Rightarrow> 'v \<Rightarrow> 'v"
  a_add :: "'v \<Rightarrow> 'v \<Rightarrow> 'v"
  a_div :: "'v \<Rightarrow> 'v \<Rightarrow> 'v"
  a_of_int :: "int \<Rightarrow> 'v"

text \<open>Exact arithmetic: no operation rounds.\<close>

definition exact_arith :: "real arith" where
  "exact_arith = \<lparr>a_mul = (*), a_add = (+), a_div = (/), a_of_int = of_int\<rparr>"

text \<open>
  The arithmetic of Python's \<open>float\<close>: IEEE 754 binary64, every operation rounded to the
  nearest representable number, ties to the even significand.  \<open>Finite m e\<close> is the
  number \<open>m * 2^e\<close>; a number has several such pairs, and the operations accept each.
  There is one zero (the sign of a zero is not kept).
\<close>

datatype double = Finite int int | PlusInf | MinusInf | NaN

text \<open>The number of binary digits of a positive integer.\<close>

function bit_length :: "int \<Rightarrow> nat" where
  "bit_length n = (if n \<le> 0 then 0 else Suc (bit_length (n div 2)))"
  by pat_completeness auto
termination
  by (relation "measure nat") auto

declare bit_length.simps [simp del]

definition inf_of_sign :: "bool \<Rightarrow> double" where
  "inf_of_sign positive = (if positive then PlusInf else MinusInf)"

text \<open>
  The binary64 number nearest to \<open>m * 2^e\<close>: at most 53 binary digits are kept, and
  no digit below \<open>2^-1074\<close>; \<open>s\<close> is the number of low digits to round away.  A
  result of \<open>2^1024\<close> or more is an infinity.
\<close>

definition round_double :: "int \<Rightarrow> int \<Rightarrow> double" where
  "round_double m e =
     (let a = \<bar>m\<bar>;
          s = max (int (bit_length a) - 53) (- 1074 - e);
          q = (if s \<le> 0 then a
               else (let k = a div 2 ^ nat s; r = a mod 2 ^ nat s; h = 2 ^ (nat s - 1)
                     in if h < r \<or> (r = h \<and> odd k) then k + 1 else k));
          e' = (if s \<le> 0 then e else e + s)
      in if q = 0 then Finite 0 0
         else if 1024 < int (bit_length q) + e' then inf_of_sign (0 < m)
         else Finite (sgn m * q) e')"

definition d_of_int :: "int \<Rightarrow> double" where
  "d_of_int k = round_double k 0"

fun d_mul :: "double \<Rightarrow> double \<Rightarrow> double" where
  "d_mul (Finite m1 e1) (Finite m2 e2) = round_double (m1 * m2) (e1 + e2)"
| "d_mul (Finite m e) PlusInf = (if m = 0 then NaN else inf_of_sign (0 < m))"
| "d_mul (Finite m e) MinusInf = (if m = 0 then NaN else inf_of_sign (m < 0))"
| "d_mul PlusInf (Finite m e) = (if m = 0 then NaN else inf_of_sign (0 < m))"
| "d_mul MinusInf (Finite m e) = (if m = 0 then NaN else inf_of_sign (m < 0))"
| "d_mul PlusInf PlusInf = PlusInf"
| "d_mul PlusInf MinusInf = MinusInf"
| "d_mul MinusInf PlusInf = MinusInf"
| "d_mul MinusInf MinusInf = PlusInf"
| "d_mul NaN y = NaN"
| "d_mul x NaN = NaN"

fun d_add :: "double \<Rightarrow> double \<Rightarrow> double" where
  "d_add (Finite m1 e1) (Finite m2 e2) =
     (let e = min e1 e2
      in round_double (m1 * 2 ^ nat (e1 - e) + m2 * 2 ^ nat (e2 - e)) e)"
| "d_add (Finite m e) PlusInf = PlusInf"
| "d_add (Finite m e) MinusInf = MinusInf"
| "d_add PlusInf (Finite m e) = PlusInf"
| "d_add MinusInf (Finite m e) = MinusInf"
| "d_add PlusInf PlusInf = PlusInf"
| "d_add PlusInf MinusInf = NaN"
| "d_add MinusInf PlusInf = NaN"
| "d_add MinusInf MinusInf = MinusInf"
| "d_add NaN y = NaN"
| "d_add x NaN = NaN"

text \<open>
  The quotient of two finite numbers: the integer quotient \<open>q\<close> of the scaled
  significands has at least 55 binary digits; \<open>t\<close> appends one digit that says whether the
  division left a remainder, so that rounding \<open>t\<close> rounds the exact quotient.  For a
  zero divisor the result is that of IEEE 754; Python's \<open>float\<close> raises there, which
  \<open>evaluate\<close> never reaches: it divides by the number of an iteration.
\<close>

fun d_div :: "double \<Rightarrow> double \<Rightarrow> double" where
  "d_div (Finite m1 e1) (Finite m2 e2) =
     (if m2 = 0 then (if m1 = 0 then NaN else inf_of_sign (0 < m1))
      else
        (let k = nat (max 0 (int (bit_length \<bar>m2\<bar>) - int (bit_length \<bar>m1\<bar>) + 55));
             n = \<bar>m1\<bar> * 2 ^ k;
             q = n div \<bar>m2\<bar>;
             t = 2 * q + (if n mod \<bar>m2\<bar> = 0 then 0 else 1)
         in round_double (sgn m1 * sgn m2 * t) (e1 - e2 - int k - 1)))"
| "d_div (Finite m e) PlusInf = Finite 0 0"
| "d_div (Finite m e) MinusInf = Finite 0 0"
| "d_div PlusInf (Finite m e) = inf_of_sign (0 \<le> m)"
| "d_div MinusInf (Finite m e) = inf_of_sign (m < 0)"
| "d_div PlusInf PlusInf = NaN"
| "d_div PlusInf MinusInf = NaN"
| "d_div MinusInf PlusInf = NaN"
| "d_div MinusInf MinusInf = NaN"
| "d_div NaN y = NaN"
| "d_div x NaN = NaN"

definition binary64 :: "double arith" where
  "binary64 = \<lparr>a_mul = d_mul, a_add = d_add, a_div = d_div, a_of_int = d_of_int\<rparr>"

text \<open>The real number that a finite binary64 number is.\<close>

fun double_real :: "double \<Rightarrow> real option" where
  "double_real (Finite m e) = Some (of_int m * 2 powi e)"
| "double_real x = None"

subsection \<open>BaseTrainable.evaluate\<close>

text \<open>
  The update of one metric:
  \<open>(metrics[m] * (iterations - 1) + new_metrics[m]) / iterations\<close>.
\<close>

definition running_update :: "'v arith \<Rightarrow> 'v \<Rightarrow> 'v \<Rightarrow> int \<Rightarrow> 'v" where
  "running_update ar old new iterations =
     a_div ar (a_add ar (a_mul ar old (a_of_int ar (iterations - 1))) new)
              (a_of_int ar iterations)"

text \<open>
  The loop of the \<open>else\<close> branch of \<open>update_metrics\<close>: \<open>metrics[m]\<close> raises KeyError for
  a key of the new dictionary that the running one does not have.
\<close>

fun update_existing :: "'v arith \<Rightarrow> 'v metrics \<Rightarrow> 'v metrics \<Rightarrow> int \<Rightarrow> error + 'v metrics" where
  "update_existing ar metrics [] iterations = Inr metrics"
| "update_existing ar metrics (kv # rest) iterations =
     (case map_of metrics (fst kv) of
        None \<Rightarrow> Inl KeyError
      | Some old \<Rightarrow>
          update_existing ar
            (dict_set (fst kv) (running_update ar old (snd kv) iterations) metrics)
            rest iterations)"

definition update_metrics :: "'v arith \<Rightarrow> 'v metrics \<Rightarrow> 'v metrics \<Rightarrow> int \<Rightarrow> error + 'v metrics" where
  "update_metrics ar metrics new_metrics iterations =
     (if length metrics = 0 then Inr (dict_update metrics new_metrics)
      else update_existing ar metrics new_metrics iterations)"

text \<open>
  \<open>forward\<close> and \<open>calculate_metrics\<close> are the hooks of the subclass; the dataset is the
  list of its batches, and \<open>iteration\<close> counts from 0.
\<close>

fun evaluate_loop ::
  "'v arith \<Rightarrow> ('b \<Rightarrow> 'o) \<Rightarrow> ('b \<Rightarrow> 'o \<Rightarrow> 'v metrics) \<Rightarrow> 'b list \<Rightarrow> nat \<Rightarrow> 'v metrics
   \<Rightarrow> error + 'v metrics" where
  "evaluate_loop ar forward calculate_metrics [] iteration metrics = Inr metrics"
| "evaluate_loop ar forward calculate_metrics (inputs # rest) iteration metrics =
     and_then
       (update_metrics ar metrics (calculate_metrics inputs (forward inputs)) (int iteration + 1))
       (evaluate_loop ar forward calculate_metrics rest (iteration + 1))"

definition BaseTrainable_evaluate ::
  "'v arith \<Rightarrow> ('b \<Rightarrow> 'o) \<Rightarrow> ('b \<Rightarrow> 'o \<Rightarrow> 'v metrics) \<Rightarrow> 'b list \<Rightarrow> error + 'v metrics" where
  "BaseTrainable_evaluate ar forward calculate_metrics dataset =
     evaluate_loop ar forward calculate_metrics dataset 0 []"

text \<open>
  The metric dictionary of a batch, and the values of one metric over the batches of a
  dataset.
\<close>

definition batch_metrics :: "('b \<Rightarrow> 'o) \<Rightarrow> ('b \<Rightarrow> 'o \<Rightarrow> 'v metrics) \<Rightarrow> 'b \<Rightarrow> 'v metrics" where
  "batch_metrics forward calculate_metrics b = calculate_metrics b (forward b)"

definition metric_values :: "('b \<Rightarrow> 'v metrics) \<Rightarrow> 'b list \<Rightarrow> string \<Rightarrow> 'v list" where
  "metric_values ms dataset k = map (\<lambda>b. the (map_of (ms b) k)) dataset"

text \<open>
  The running average of a list of values, as a recurrence: the first value, and then
  the update with each further value, the second with \<open>iterations = 2\<close>.  Nothing for the
  empty list.
\<close>

fun running_average_from :: "'v arith \<Rightarrow> 'v \<Rightarrow> int \<Rightarrow> 'v list \<Rightarrow> 'v" where
  "running_average_from ar m iterations [] = m"
| "running_average_from ar m iterations (v # vs) =
     running_average_from ar (running_update ar m v iterations) (iterations + 1) vs"

definition running_average :: "'v arith \<Rightarrow> 'v list \<Rightarrow> 'v option" where
  "running_average ar vs =
     (case vs of [] \<Rightarrow> None | v # rest \<Rightarrow> Some (running_average_from ar v 2 rest))"

subsection \<open>StandardClassifier: training steps and \<open>fit\<close>\<close>

text \<open>
  What a classifier is called on: \<open>fit\<close> and \<open>train_step\<close> pass the first tensor of the
  batch, \<open>evaluate\<close> passes the whole batch (\<open>self.forward(inputs)\<close>, whose \<open>inputs[0]\<close> is
  then the batch).
\<close>

datatype 'x arg = Single 'x | Batch "'x list"

text \<open>
  The object: the classifier and the loss as functions (a forward pass computes a value),
  the \<open>calculate_metrics\<close> hook (the base class returns an empty dictionary), whether a
  scheduler is set, and the learning rate read from the optimizer.
\<close>

record ('x, 'o, 'v) StandardClassifier =
  classifier :: "'x arg \<Rightarrow> 'o"
  loss :: "'o \<Rightarrow> 'x \<Rightarrow> 'v"
  calculate_metrics :: "'x list \<Rightarrow> 'o \<Rightarrow> 'v metrics"
  has_scheduler :: bool
  lr :: 'v

text \<open>
  The calls that change the state of the network, the optimizer or the scheduler, and
  the calls out to the callbacks and to \<open>standard_logging\<close>, in the order they are
  made.  \<open>LossBackward l\<close> is \<open>loss.backward()\<close> on a loss of value \<open>l\<close>.  A forward
  pass and a loss are values computed from the batch.  The progress bars and the move of
  a batch to the device are not modelled.
\<close>

datatype 'v event =
    ClassifierTrain bool
  | ZeroGrad
  | LossBackward 'v
  | OptimizerStep
  | SchedulerStep
  | StepCallback
  | EpochCallback
  | StandardLogging

text \<open>\<open>forward(*inputs)\<close>: \<open>inputs[0]\<close> raises IndexError without arguments.\<close>

definition StandardClassifier_forward ::
  "('x, 'o, 'v) StandardClassifier \<Rightarrow> 'x arg list \<Rightarrow> error + 'o" where
  "StandardClassifier_forward self inputs =
     (case inputs of [] \<Rightarrow> Inl IndexError | i0 # _ \<Rightarrow> Inr (classifier self i0))"

definition StandardClassifier_calculate_loss ::
  "('x, 'o, 'v) StandardClassifier \<Rightarrow> 'x list \<Rightarrow> 'o \<Rightarrow> error + 'v" where
  "StandardClassifier_calculate_loss self inputs outputs =
     (if inputs = [] then Inl IndexError else Inr (loss self outputs (last inputs)))"

definition backward :: "'v \<Rightarrow> 'v event list \<Rightarrow> 'v event list" where
  "backward l tr = tr @ [ZeroGrad, LossBackward l]"

definition BaseTrainable_train_step ::
  "('x, 'o, 'v) StandardClassifier \<Rightarrow> 'x list \<Rightarrow> 'v event list
   \<Rightarrow> (error + 'v metrics) \<times> 'v event list" where
  "BaseTrainable_train_step self inputs tr =
     (case StandardClassifier_forward self (map Single inputs) of
        Inl e \<Rightarrow> (Inl e, tr)
      | Inr outputs \<Rightarrow>
          (case StandardClassifier_calculate_loss self inputs outputs of
             Inl e \<Rightarrow> (Inl e, tr)
           | Inr l \<Rightarrow>
               (Inr (calculate_metrics self inputs outputs),
                backward l tr @ [OptimizerStep]
                @ (if has_scheduler self then [SchedulerStep] else []))))"

definition StandardClassifier_train_step ::
  "('x, 'o, 'v) StandardClassifier \<Rightarrow> 'x list \<Rightarrow> 'v event list
   \<Rightarrow> (error + 'v metrics) \<times> 'v event list" where
  "StandardClassifier_train_step self inputs tr =
     BaseTrainable_train_step self inputs (tr @ [ClassifierTrain True])"

definition StandardClassifier_evaluate ::
  "'v arith \<Rightarrow> ('x, 'o, 'v) StandardClassifier \<Rightarrow> 'x list list \<Rightarrow> 'v event list
   \<Rightarrow> (error + 'v metrics) \<times> 'v event list" where
  "StandardClassifier_evaluate ar self dataset tr =
     (BaseTrainable_evaluate ar (\<lambda>inputs. classifier self (Batch inputs))
        (calculate_metrics self) dataset,
      tr @ [ClassifierTrain False])"

text \<open>
  The body of the inner loop of \<open>fit\<close>, for one batch.  The numbers of the epoch and of
  the iteration are stored as metric values.
\<close>

definition fit_batch ::
  "'v arith \<Rightarrow> ('x, 'o, 'v) StandardClassifier \<Rightarrow> bool \<Rightarrow> int \<Rightarrow> int \<Rightarrow> 'x list \<Rightarrow> 'v event list
   \<Rightarrow> (error + 'v metrics) \<times> 'v event list" where
  "fit_batch ar self step_callback epoch iteration inputs tr =
     (case StandardClassifier_forward self (map Single inputs) of
        Inl e \<Rightarrow> (Inl e, tr)
      | Inr outputs \<Rightarrow>
          (case StandardClassifier_calculate_loss self inputs outputs of
             Inl e \<Rightarrow> (Inl e, tr)
           | Inr l \<Rightarrow>
               (Inr (dict_set ''lr'' (lr self)
                      (dict_set ''iteration'' (a_of_int ar iteration)
                        (dict_set ''epoch'' (a_of_int ar epoch)
                          (setdefault ''loss'' l (calculate_metrics self inputs outputs))))),
                backward l tr @ (if step_callback then [StepCallback] else []))))"

fun fit_batches ::
  "'v arith \<Rightarrow> ('x, 'o, 'v) StandardClassifier \<Rightarrow> bool \<Rightarrow> int \<Rightarrow> int \<Rightarrow> 'x list list
   \<Rightarrow> 'v metrics list \<Rightarrow> 'v event list \<Rightarrow> (error + 'v metrics list) \<times> 'v event list" where
  "fit_batches ar self step_callback epoch iteration [] train_log tr = (Inr train_log, tr)"
| "fit_batches ar self step_callback epoch iteration (inputs # rest) train_log tr =
     (case fit_batch ar self step_callback epoch iteration inputs tr of
        (Inl e, tr') \<Rightarrow> (Inl e, tr')
      | (Inr train_metrics, tr') \<Rightarrow>
          fit_batches ar self step_callback epoch (iteration + 1) rest
            (train_log @ [train_metrics]) tr')"

text \<open>The validation at the end of an epoch.\<close>

definition fit_validate ::
  "'v arith \<Rightarrow> ('x, 'o, 'v) StandardClassifier \<Rightarrow> bool \<Rightarrow> int \<Rightarrow> 'x list list \<Rightarrow> 'v event list
   \<Rightarrow> (error + 'v metrics) \<times> 'v event list" where
  "fit_validate ar self epoch_callback epoch validation_dataset tr =
     (case StandardClassifier_evaluate ar self validation_dataset tr of
        (Inl e, tr') \<Rightarrow> (Inl e, tr')
      | (Inr val_metrics, tr') \<Rightarrow>
          (Inr (dict_set ''epoch'' (a_of_int ar epoch) val_metrics),
           tr' @ [StandardLogging] @ (if epoch_callback then [EpochCallback] else [])))"

fun fit_epochs ::
  "'v arith \<Rightarrow> ('x, 'o, 'v) StandardClassifier \<Rightarrow> 'x list list \<Rightarrow> 'x list list option
   \<Rightarrow> bool \<Rightarrow> bool \<Rightarrow> int list \<Rightarrow> 'v metrics list \<Rightarrow> 'v metrics list \<Rightarrow> 'v event list
   \<Rightarrow> (error + 'v metrics list \<times> 'v metrics list) \<times> 'v event list" where
  "fit_epochs ar self training validation step_cb epoch_cb [] train_log validation_log tr =
     (Inr (train_log, validation_log), tr)"
| "fit_epochs ar self training validation step_cb epoch_cb (epoch # rest) train_log
     validation_log tr =
     (case fit_batches ar self step_cb epoch 1 training train_log tr of
        (Inl e, tr1) \<Rightarrow> (Inl e, tr1)
      | (Inr train_log', tr1) \<Rightarrow>
          (case validation of
             None \<Rightarrow>
               fit_epochs ar self training validation step_cb epoch_cb rest
                 train_log' validation_log tr1
           | Some validation_dataset \<Rightarrow>
               (case fit_validate ar self epoch_cb epoch validation_dataset tr1 of
                  (Inl e, tr2) \<Rightarrow> (Inl e, tr2)
                | (Inr val_metrics, tr2) \<Rightarrow>
                    fit_epochs ar self training validation step_cb epoch_cb rest
                      train_log' (validation_log @ [val_metrics]) tr2)))"

text \<open>
  \<open>fit(training_dataset, epochs, validation_dataset, step_callback, epoch_callback)\<close>;
  the two booleans say whether the callbacks are callable.  The epochs are
  \<open>range(1, epochs + 1)\<close>.
\<close>

definition fit ::
  "'v arith \<Rightarrow> ('x, 'o, 'v) StandardClassifier \<Rightarrow> 'x list list \<Rightarrow> int \<Rightarrow> 'x list list option
   \<Rightarrow> bool \<Rightarrow> bool \<Rightarrow> 'v event list
   \<Rightarrow> (error + 'v metrics list \<times> 'v metrics list) \<times> 'v event list" where
  "fit ar self training_dataset epochs validation_dataset step_callback epoch_callback tr =
     fit_epochs ar self training_dataset validation_dataset step_callback epoch_callback
       [1..epochs] [] [] tr"

text \<open>
  A classifier for concrete runs: tensors and outputs are integers, the network returns
  its input, the loss is the difference between output and label as a \<open>float\<close>, and
  \<open>calculate_metrics\<close> is that of the base class.
\<close>

definition example_classifier :: "(int, int, double) StandardClassifier" where
  "example_classifier =
     \<lparr>classifier = (\<lambda>a. case a of Single x \<Rightarrow> x | Batch xs \<Rightarrow> 0),
      loss = (\<lambda>out y. d_of_int (out - y)),
      calculate_metrics = (\<lambda>inputs outputs. []),
      has_scheduler = False,
      lr = d_of_int 1\<rparr>"

subsection \<open>Construction: \<open>BaseTrainable.__init__\<close> and \<open>build_network\<close>\<close>

text \<open>What a caller may pass as \<open>cuda\<close>.\<close>

datatype pyval = PyBool bool | PyStr string | PyInt int | PyNone

text \<open>
  The attributes of the object under construction; \<open>None\<close> is an attribute not yet
  assigned.  \<open>'a\<close> stands for the objects of the tensor library (modules, optimizers,
  schedulers, devices, losses).  \<open>klass\<close> is the class of the object, which selects the
  \<open>build_network\<close> and \<open>parameters\<close> that \<open>__init__\<close> calls.
\<close>

datatype klass = BaseTrainableClass | StandardClassifierClass

record 'a trainable =
  klass_of :: klass
  attr_cuda :: "pyval option"
  attr_device :: "'a option"
  attr_scheduler :: "'a option option"
  attr_classifier :: "'a option"
  attr_optimizer :: "'a option"
  attr_loss :: "'a option"

definition new_object :: "klass \<Rightarrow> 'a trainable" where
  "new_object k =
     \<lparr>klass_of = k, attr_cuda = None, attr_device = None, attr_scheduler = None,
      attr_classifier = None, attr_optimizer = None, attr_loss = None\<rparr>"

text \<open>
  The library calls of the constructors: \<open>torch.device(name)\<close> (\<open>None\<close>: it raises
  RuntimeError on a name it does not know), \<open>torch.optim.Adam(params)\<close> on the parameters
  of a module (\<open>None\<close>: it raises ValueError on an empty parameter list),
  \<open>module.to(device)\<close> and \<open>torch.nn.CrossEntropyLoss()\<close>.
\<close>

record 'a torch_env =
  torch_device :: "string \<Rightarrow> 'a option"
  torch_Adam :: "'a \<Rightarrow> 'a option"
  to_device :: "'a \<Rightarrow> 'a \<Rightarrow> 'a"
  CrossEntropyLoss :: 'a

definition BaseTrainable_build_network :: "'a trainable \<Rightarrow> 'a option \<Rightarrow> (error + unit) \<times> 'a trainable" where
  "BaseTrainable_build_network self kwargs = (Inl NotImplementedError, self)"

definition StandardClassifier_build_network ::
  "'a trainable \<Rightarrow> 'a option \<Rightarrow> (error + unit) \<times> 'a trainable" where
  "StandardClassifier_build_network self classifier_arg =
     (case classifier_arg of
        None \<Rightarrow> (Inl AssertionError, self)
      | Some c \<Rightarrow> (Inr (), self\<lparr>attr_classifier := Some c\<rparr>))"

definition build_network :: "'a trainable \<Rightarrow> 'a option \<Rightarrow> (error + unit) \<times> 'a trainable" where
  "build_network self classifier_arg =
     (case klass_of self of
        BaseTrainableClass \<Rightarrow> BaseTrainable_build_network self classifier_arg
      | StandardClassifierClass \<Rightarrow> StandardClassifier_build_network self classifier_arg)"

text \<open>
  \<open>parameters()\<close>: the base class raises; the classifier's are those of its module
  (an object whose \<open>classifier\<close> is not assigned has no such attribute).
\<close>

definition parameters :: "'a trainable \<Rightarrow> error + 'a" where
  "parameters self =
     (case klass_of self of
        BaseTrainableClass \<Rightarrow> Inl NotImplementedError
      | StandardClassifierClass \<Rightarrow>
          (case attr_classifier self of None \<Rightarrow> Inl AttributeError | Some c \<Rightarrow> Inr c))"

text \<open>\<open>self.__dict__.keys()\<close>: the names of the assigned attributes.\<close>

definition members :: "'a trainable \<Rightarrow> string list" where
  "members self =
     (if attr_cuda self = None then [] else [''cuda''])
     @ (if attr_device self = None then [] else [''device''])
     @ (if attr_scheduler self = None then [] else [''scheduler''])
     @ (if attr_classifier self = None then [] else [''classifier''])
     @ (if attr_optimizer self = None then [] else [''optimizer''])
     @ (if attr_loss self = None then [] else [''loss''])"

text \<open>
  The body of the loop over \<open>new_members\<close>: a member that is a module is moved to the
  device.  Of the attributes, only \<open>classifier\<close> holds a module.
\<close>

definition move_member :: "'a torch_env \<Rightarrow> string \<Rightarrow> 'a trainable \<Rightarrow> 'a trainable" where
  "move_member env member self =
     (if member = ''classifier''
      then (case (attr_classifier self, attr_device self) of
              (Some c, Some d) \<Rightarrow> self\<lparr>attr_classifier := Some (to_device env c d)\<rparr>
            | _ \<Rightarrow> self)
      else self)"

text \<open>
  The loop after \<open>build_network\<close>: \<open>new_members\<close> is the members before
  \<open>build_network\<close> without those after it.
\<close>

definition move_new_members :: "'a torch_env \<Rightarrow> string list \<Rightarrow> 'a trainable \<Rightarrow> 'a trainable" where
  "move_new_members env before_members self =
     (let new_members = filter (\<lambda>m. m \<notin> set (members self)) before_members
      in fold (move_member env) new_members self)"

text \<open>
  The last line of \<open>__init__\<close>:
  \<open>self.optimizer = torch.optim.Adam(self.parameters()) if optimizer is None else optimizer\<close>.
\<close>

definition set_optimizer ::
  "'a torch_env \<Rightarrow> 'a option \<Rightarrow> 'a trainable \<Rightarrow> (error + unit) \<times> 'a trainable" where
  "set_optimizer env optimizer self =
     (case optimizer of
        Some opt \<Rightarrow> (Inr (), self\<lparr>attr_optimizer := Some opt\<rparr>)
      | None \<Rightarrow>
          (case parameters self of
             Inl e \<Rightarrow> (Inl e, self)
           | Inr ps \<Rightarrow>
               (case torch_Adam env ps of
                  None \<Rightarrow> (Inl ValueError, self)
                | Some opt \<Rightarrow> (Inr (), self\<lparr>attr_optimizer := Some opt\<rparr>))))"

text \<open>
  \<open>BaseTrainable.__init__(optimizer, scheduler, cuda, **kwargs)\<close>; the keyword arguments
  are the \<open>classifier\<close> that \<open>StandardClassifier.__init__\<close> passes on.  The result is
  the exception, if one is raised, and the object as the call leaves it.
\<close>

definition BaseTrainable_init ::
  "'a torch_env \<Rightarrow> 'a option \<Rightarrow> 'a option \<Rightarrow> pyval \<Rightarrow> 'a option \<Rightarrow> 'a trainable
   \<Rightarrow> (error + unit) \<times> 'a trainable" where
  "BaseTrainable_init env optimizer scheduler cuda kwargs self0 =
     (let self1 = self0\<lparr>attr_cuda := Some cuda\<rparr>;
          cuda' = (case cuda of PyBool b \<Rightarrow> PyStr (if b then ''cuda'' else ''cpu'') | _ \<Rightarrow> cuda)
      in case cuda' of
           PyStr name \<Rightarrow>
             (case torch_device env name of
                None \<Rightarrow> (Inl RuntimeError, self1)
              | Some d \<Rightarrow>
                  (let self2 = self1\<lparr>attr_device := Some d, attr_scheduler := Some scheduler\<rparr>;
                       before_members = members self2
                   in case build_network self2 kwargs of
                        (Inl e, self3) \<Rightarrow> (Inl e, self3)
                      | (Inr u, self3) \<Rightarrow>
                          set_optimizer env optimizer (move_new_members env before_members self3)))
         | _ \<Rightarrow> (Inl AssertionError, self1))"

text \<open>\<open>StandardClassifier.__init__(classifier, loss_fn=None, cuda=False)\<close>.\<close>

definition StandardClassifier_init ::
  "'a torch_env \<Rightarrow> 'a option \<Rightarrow> 'a option \<Rightarrow> pyval \<Rightarrow> 'a trainable
   \<Rightarrow> (error + unit) \<times> 'a trainable" where
  "StandardClassifier_init env classifier_arg loss_fn cuda self0 =
     (case BaseTrainable_init env None None cuda classifier_arg self0 of
        (Inl e, self1) \<Rightarrow> (Inl e, self1)
      | (Inr u, self1) \<Rightarrow>
          (case attr_device self1 of
             None \<Rightarrow> (Inl AttributeError, self1)
           | Some d \<Rightarrow>
               (Inr (),
                self1\<lparr>attr_loss :=
                  Some (to_device env (case loss_fn of None \<Rightarrow> CrossEntropyLoss env | Some l \<Rightarrow> l) d)\<rparr>)))"

text \<open>Whether \<open>isinstance(cuda, bool)\<close> or \<open>isinstance(cuda, str)\<close> holds.\<close>

fun is_bool_or_str :: "pyval \<Rightarrow> bool" where
  "is_bool_or_str (PyBool b) = True"
| "is_bool_or_str (PyStr s) = True"
| "is_bool_or_str v = False"

text \<open>The device name that \<open>__init__\<close> builds the device from.\<close>

fun device_name :: "pyval \<Rightarrow> string" where
  "device_name (PyBool b) = (if b then ''cuda'' else ''cpu'')"
| "device_name (PyStr s) = s"
| "device_name v = []"

text \<open>An instance of the library calls, for concrete runs: objects are numbers.\<close>

definition example_env :: "nat torch_env" where
  "example_env =
     \<lparr>torch_device = (\<lambda>name. if name = ''cpu'' then Some 0 else if name = ''cuda'' then Some 1 else None),
      torch_Adam = (\<lambda>ps. Some (ps + 100)),
      to_device = (\<lambda>m d. m),
      CrossEntropyLoss = 7\<rparr>"

section \<open>Layers (layers.py)\<close>

subsection \<open>ExpandLayer\<close>

text \<open>
  Python's \<open>list.insert(i, x)\<close>: a negative index counts from the end, and an index
  beyond either end is clamped to it.
\<close>

definition py_insert :: "int \<Rightarrow> 'a \<Rightarrow> 'a list \<Rightarrow> 'a list" where
  "py_insert i x xs =
     (let n = int (length xs);
          j = (if i < 0 then max 0 (i + n) else min i n)
      in take (nat j) xs @ [x] @ drop (nat j) xs)"

record ExpandLayer =
  axis :: int

definition compute_output_signature :: "ExpandLayer \<Rightarrow> nat list \<Rightarrow> nat list" where
  "compute_output_signature self input_signature =
     (let ax = axis self;
          ax = (if ax < 0 then int (length input_signature) + ax else ax)
      in py_insert (ax + 1) 1 input_signature)"

text \<open>
  \<open>tf.expand_dims(input, axis)\<close>, from the library's documentation: for an input of
  \<open>D\<close> dimensions it inserts a dimension of length 1 at index \<open>axis\<close> of the shape, a
  negative \<open>axis\<close> counting from the end (\<open>-1\<close> appends); \<open>axis\<close> must be in
  \<open>[-(D+1), D]\<close>, otherwise the call raises.  The elements are unchanged.
\<close>

definition expand_dims :: "'e tensor \<Rightarrow> int \<Rightarrow> error + 'e tensor" where
  "expand_dims x ax =
     (let d = int (length (shape x)) in
      if - (d + 1) \<le> ax \<and> ax \<le> d
      then (let j = nat (if ax < 0 then d + 1 + ax else ax)
            in Inr (x\<lparr>shape := take j (shape x) @ [1] @ drop j (shape x)\<rparr>))
      else Inl InvalidArgumentError)"

definition ExpandLayer_call :: "ExpandLayer \<Rightarrow> 'e tensor \<Rightarrow> error + 'e tensor" where
  "ExpandLayer_call self inputs = expand_dims inputs (axis self)"

subsection \<open>AttentionLSTMIn\<close>

text \<open>
  The \<open>alignment_units\<close> argument: \<open>None\<close>, a number, or a list or tuple of numbers.
\<close>

datatype alignment_units_arg = AU_None | AU_Int int | AU_Seq "int list"

text \<open>
  The attributes that \<open>__init__\<close> assigns (\<open>None\<close>: not assigned), and the part of the
  object that the constructor of the base class \<open>keras.layers.LSTM\<close> builds.
\<close>

record 'k AttentionLSTMIn =
  alignment_units :: "int list option"
  alignment_depth :: "int option"
  style :: "string option"
  lstm :: "'k option"

definition ATT_STYLES :: "string list" where
  "ATT_STYLES = [''local'', ''global'']"

text \<open>
  \<open>__init__(units, alignment_depth, style, alignment_units, implementation)\<close>.  The
  constructor of the base class is a parameter: it returns the base part of the object
  or raises.
\<close>

definition AttentionLSTMIn_init ::
  "(int \<Rightarrow> int \<Rightarrow> error + 'k) \<Rightarrow> int \<Rightarrow> int \<Rightarrow> string \<Rightarrow> alignment_units_arg \<Rightarrow> int
   \<Rightarrow> 'k AttentionLSTMIn \<Rightarrow> (error + unit) \<times> 'k AttentionLSTMIn" where
  "AttentionLSTMIn_init LSTM_init units alignment_depth_arg style_arg alignment_units_arg
     implementation self0 =
     (let implementation' = (if implementation > 0 then implementation else 2);
          depth = max 0 alignment_depth_arg;
          self1 =
            (case alignment_units_arg of
               AU_Seq xs \<Rightarrow>
                 self0\<lparr>alignment_units := Some xs, alignment_depth := Some (int (length xs))\<rparr>
             | AU_Int u \<Rightarrow>
                 self0\<lparr>alignment_depth := Some depth,
                       alignment_units := Some (replicate (nat depth) (if u \<noteq> 0 then u else units))\<rparr>
             | AU_None \<Rightarrow>
                 self0\<lparr>alignment_depth := Some depth,
                       alignment_units := Some (replicate (nat depth) units)\<rparr>)
      in if style_arg \<notin> set ATT_STYLES then (Inl TypeError, self1)
         else (let self2 = self1\<lparr>style := Some style_arg\<rparr>
               in case LSTM_init units implementation' of
                    Inl e \<Rightarrow> (Inl e, self2)
                  | Inr k \<Rightarrow> (Inr (), self2\<lparr>lstm := Some k\<rparr>)))"

text \<open>
  An instance of the constructor of the base class, for concrete runs: like
  \<open>keras.layers.LSTM\<close>, it raises ValueError unless \<open>units\<close> is positive.
\<close>

definition example_LSTM_init :: "int \<Rightarrow> int \<Rightarrow> error + int \<times> int" where
  "example_LSTM_init units implementation =
     (if units \<le> 0 then Inl ValueError else Inr (units, implementation))"

definition new_layer :: "'k AttentionLSTMIn" where
  "new_layer = \<lparr>alignment_units = None, alignment_depth = None, style = None, lstm = None\<rparr>"

section \<open>Datasets and their transforms\<close>

text \<open>
  Modelled from the spec: the dataset class (\<open>dn3.data.dataset\<close>, with \<open>add_transform\<close>,
  \<open>clear_transforms\<close>, \<open>loso\<close>, \<open>lmso\<close> and \<open>split\<close>) is not among the sources; only its
  test is.  The spec says that the registration of a transform survives the operations
  that split a dataset, and that clearing removes it.  A dataset is its trials and the
  list \<open>_transforms\<close>; a subset of a dataset is the dataset with some of its trials.
  How the trials are divided (by person, by session) is not described: the division is
  a parameter, a function from the trials to the (training, validation, testing) triples.
\<close>

record ('x, 't) dataset =
  trials :: "'x list"
  transforms :: "'t list"

definition add_transform :: "'t \<Rightarrow> ('x, 't) dataset \<Rightarrow> ('x, 't) dataset" where
  "add_transform t ds = ds\<lparr>transforms := transforms ds @ [t]\<rparr>"

definition clear_transforms :: "('x, 't) dataset \<Rightarrow> ('x, 't) dataset" where
  "clear_transforms ds = ds\<lparr>transforms := []\<rparr>"

definition subset_of :: "('x, 't) dataset \<Rightarrow> 'x list \<Rightarrow> ('x, 't) dataset" where
  "subset_of ds xs = ds\<lparr>trials := xs\<rparr>"

definition subsets ::
  "('x, 't) dataset \<Rightarrow> 'x list \<times> 'x list \<times> 'x list
   \<Rightarrow> ('x, 't) dataset \<times> ('x, 't) dataset \<times> ('x, 't) dataset" where
  "subsets ds p = (subset_of ds (fst p), subset_of ds (fst (snd p)), subset_of ds (snd (snd p)))"

definition loso ::
  "('x list \<Rightarrow> ('x list \<times> 'x list \<times> 'x list) list) \<Rightarrow> ('x, 't) dataset
   \<Rightarrow> (('x, 't) dataset \<times> ('x, 't) dataset \<times> ('x, 't) dataset) list" where
  "loso by_person ds = map (subsets ds) (by_person (trials ds))"

definition lmso ::
  "('x list \<Rightarrow> ('x list \<times> 'x list \<times> 'x list) list) \<Rightarrow> ('x, 't) dataset
   \<Rightarrow> (('x, 't) dataset \<times> ('x, 't) dataset \<times> ('x, 't) dataset) list" where
  "lmso by_folds ds = map (subsets ds) (by_folds (trials ds))"

definition split ::
  "('x list \<Rightarrow> 'x list \<times> 'x list \<times> 'x list) \<Rightarrow> ('x, 't) dataset
   \<Rightarrow> ('x, 't) dataset \<times> ('x, 't) dataset \<times> ('x, 't) dataset" where
  "split by_ids ds = subsets ds (by_ids (trials ds))"

text \<open>Whether the three datasets of a triple all have the transform registered.\<close>

definition all_registered ::
  "'t \<Rightarrow> ('x, 't) dataset \<times> ('x, 't) dataset \<times> ('x, 't) dataset \<Rightarrow> bool" where
  "all_registered t tr =
     (t \<in> set (transforms (fst tr)) \<and> t \<in> set (transforms (fst (snd tr)))
      \<and> t \<in> set (transforms (snd (snd tr))))"

section \<open>Properties of the transforms\<close>

subsection \<open>ZScore\<close>

text \<open>
  C2. For every input tensor \<open>x\<close>, \<open>ZScore.__call__(x)\<close> is the reference of the tests
  \<open>(x - x.mean()) / x.std()\<close>: the tensor of the same shape whose elements are those of
  \<open>x\<close>, each less the mean and divided by the standard deviation, in the arithmetic of
  the tensor library, whatever that is.
\<close>

theorem ZScore_matches_reference:
  "snd (ZScore_call ops self x) = Inr (One (simple_zscoring ops x))
   \<and> shape (simple_zscoring ops x) = shape x
   \<and> data (simple_zscoring ops x)
       = map (\<lambda>v. e_div ops (e_sub ops v (t_mean ops x)) (t_std ops x)) (data x)"
  by (simp add: ZScore_call_def simple_zscoring_def tdiv_def tsub_def)


subsection \<open>TemporalPadding\<close>

text \<open>
  On a trial of shape (channels, samples) the list \<open>pad\<close> has \<open>max(2, samples)\<close>
  entries, not 2 or 4: the call raises for 3 samples and for 5 or more, and pads as
  \<open>new_sequence_length\<close> says only for at most 2 samples or exactly 4.
\<close>

lemma TemporalPadding_call_raises_2d:
  assumes "shape x = [c, n]" and "n = 3 \<or> 5 \<le> n"
  shows "snd (TemporalPadding_call om (TemporalPadding_default z sp ep) x) = Inl RuntimeError"
proof -
  let ?pad = "[sp, ep] @ replicate (n - 2) (0::int)"
  from assms(2) have len: "length ?pad = n" by auto
  have "torch_pad om x ?pad ''constant'' z = Inl RuntimeError"
  proof (cases "n mod 2 = 0")
    case True
    with assms(2) have "6 \<le> n" by presburger
    then have "2 < n div 2" by presburger
    with len show ?thesis by (simp add: torch_pad_def assms(1) del: replicate.simps)
  next
    case False
    with len show ?thesis by (simp add: torch_pad_def del: replicate.simps)
  qed
  then show ?thesis
    by (simp add: TemporalPadding_call_def TemporalPadding_default_def TemporalPadding_init_def
          assms(1) del: replicate.simps)
qed

lemma TemporalPadding_call_ok_2d:
  assumes "shape x = [c, n]" and "n \<le> 2 \<or> n = 4" and "0 \<le> sp" and "0 \<le> ep"
  shows "\<exists>r. snd (TemporalPadding_call om (TemporalPadding_default z sp ep) x) = Inr (One r)
           \<and> shape r = [c, nat (new_sequence_length (TemporalPadding_default z sp ep) (int n))]"
proof -
  from assms(2) consider "n \<le> 2" | "n = 4" by blast
  then show ?thesis
  proof cases
    case 1
    then have "replicate (n - 2) (0::int) = []" by simp
    then show ?thesis using assms(1,3,4)
      by (simp add: TemporalPadding_call_def TemporalPadding_default_def TemporalPadding_init_def
          torch_pad_def constant_pad_nd_def dim_pads_def crop_ok_def new_dim_def
          new_sequence_length_def Let_def)
  next
    case 2
    then have "replicate (n - 2) (0::int) = [0, 0]" by (simp add: numeral_2_eq_2)
    then show ?thesis using assms(1,3,4) 2
      by (simp add: TemporalPadding_call_def TemporalPadding_default_def TemporalPadding_init_def
          torch_pad_def constant_pad_nd_def dim_pads_def crop_ok_def new_dim_def
          new_sequence_length_def Let_def)
  qed
qed


text \<open>
  C4. For a trial tensor of shape (channels, samples), \<open>TemporalPadding(start_padding,
  end_padding).__call__\<close> is claimed to return a tensor whose last dimension is
  \<open>samples + start_padding + end_padding\<close>.  On a trial of one channel and three samples
  with one sample of padding at each end the call raises instead: \<open>pad\<close> is \<open>[1, 1, 0]\<close>,
  of odd length.  \<open>new_sequence_length\<close> announces 5 samples.
\<close>

theorem TemporalPadding_raises_at_three_samples:
  "snd (TemporalPadding_call om (TemporalPadding_default z 1 1) \<lparr>shape = [1, 3], data = [a, b, c]\<rparr>)
     = Inl RuntimeError
   \<and> new_sequence_length (TemporalPadding_default z 1 1) 3 = 5"
  by (simp add: TemporalPadding_call_def TemporalPadding_default_def TemporalPadding_init_def
        torch_pad_def new_sequence_length_def)


subsection \<open>Statelessness\<close>

text \<open>
  C5. Every transform of the library is a stateless tensor map: a call leaves the
  transform object as it was, whatever the class of the transform and the input, also
  when the call raises, and a second call on the same input, made on the object that the
  first call left, returns what the first returned.
\<close>

theorem transform_call_stateless:
  "fst (transform_call om ops t x) = t
   \<and> transform_call om ops (fst (transform_call om ops t x)) x = transform_call om ops t x"
  by (cases t)
     (simp_all add: transform_call_def BaseTransform_call_def ZScore_call_def
        TemporalPadding_call_def MappingDeep1010_call_def Let_def)


section \<open>Properties of the trainables\<close>

subsection \<open>Metric dictionaries\<close>

lemma map_of_dict_set:
  "map_of (dict_set k v d) k' = (if k' = k then Some v else map_of d k')"
proof (cases "map_of d k")
  case None
  then show ?thesis by (simp add: dict_set_def map_add_def split: option.splits)
next
  case (Some a)
  have "map_of (map (\<lambda>kv. if fst kv = k then (k, v) else kv) d) k' =
        (if k' = k then (if map_of d k = None then None else Some v) else map_of d k')"
    by (induction d) auto
  with Some show ?thesis by (simp add: dict_set_def)
qed

lemma keys_dict_set_present:
  "map_of d k \<noteq> None \<Longrightarrow> map fst (dict_set k v d) = map fst d"
  by (simp add: dict_set_def comp_def)

lemma dict_update_fresh:
  "distinct (map fst (d @ other)) \<Longrightarrow> dict_update d other = d @ other"
proof (induction other arbitrary: d)
  case Nil
  then show ?case by (simp add: dict_update_def)
next
  case (Cons kv other)
  from Cons.prems have "map_of d (fst kv) = None"
    by (simp add: map_of_eq_None_iff)
  then have s: "dict_set (fst kv) (snd kv) d = d @ [kv]" by (simp add: dict_set_def)
  from Cons.prems have "distinct (map fst ((d @ [kv]) @ other))" by simp
  from Cons.IH[OF this] show ?case using s by (simp add: dict_update_def)
qed

lemma update_existing_ok:
  assumes "distinct (map fst new)" and "set (map fst new) \<subseteq> set (map fst metrics)"
  shows "\<exists>m'. update_existing ar metrics new it = Inr m' \<and> map fst m' = map fst metrics
          \<and> (\<forall>k. map_of m' k =
                (case map_of new k of
                   None \<Rightarrow> map_of metrics k
                 | Some v \<Rightarrow> Some (running_update ar (the (map_of metrics k)) v it)))"
  using assms
proof (induction new arbitrary: metrics)
  case Nil
  then show ?case by simp
next
  case (Cons kv new)
  obtain k v where kv: "kv = (k, v)" by (cases kv)
  from Cons.prems(2) kv have "k \<in> fst ` set metrics" by auto
  then obtain old where old: "map_of metrics k = Some old"
    by (metis map_of_eq_None_iff not_Some_eq)
  let ?m1 = "dict_set k (running_update ar old v it) metrics"
  have keys: "map fst ?m1 = map fst metrics"
    using old by (simp add: keys_dict_set_present)
  from Cons.prems kv have d: "distinct (map fst new)" and sub: "set (map fst new) \<subseteq> set (map fst ?m1)"
    and fresh: "map_of new k = None"
    by (auto simp: keys map_of_eq_None_iff)
  from Cons.IH[OF d sub] obtain m' where m': "update_existing ar ?m1 new it = Inr m'"
    "map fst m' = map fst ?m1"
    "\<forall>k'. map_of m' k' =
                (case map_of new k' of
                   None \<Rightarrow> map_of ?m1 k'
                 | Some v' \<Rightarrow> Some (running_update ar (the (map_of ?m1 k')) v' it))"
    by blast
  have "\<forall>k'. map_of m' k' =
                (case map_of (kv # new) k' of
                   None \<Rightarrow> map_of metrics k'
                 | Some v' \<Rightarrow> Some (running_update ar (the (map_of metrics k')) v' it))"
  proof
    fix k'
    show "map_of m' k' =
                (case map_of (kv # new) k' of
                   None \<Rightarrow> map_of metrics k'
                 | Some v' \<Rightarrow> Some (running_update ar (the (map_of metrics k')) v' it))"
    proof (cases "k' = k")
      case True
      with m'(3) fresh old kv show ?thesis by (simp add: map_of_dict_set)
    next
      case False
      with m'(3) kv show ?thesis by (simp add: map_of_dict_set split: option.splits)
    qed
  qed
  with m'(1,2) keys old kv show ?case by simp
qed


subsection \<open>The running average of \<open>evaluate\<close>\<close>

lemma running_average_from_snoc:
  "running_average_from ar m i (vs @ [v])
     = running_update ar (running_average_from ar m i vs) v (i + int (length vs))"
  by (induction vs arbitrary: m i) (simp_all add: add.assoc)

lemma running_average_snoc:
  assumes "vs \<noteq> []"
  shows "running_average ar (vs @ [v])
           = Some (running_update ar (the (running_average ar vs)) v (int (length vs) + 1))"
proof -
  from assms obtain v0 rest where "vs = v0 # rest" by (cases vs) auto
  then show ?thesis
    by (simp add: running_average_def running_average_from_snoc add.commute add.left_commute)
qed

lemma running_average_from_exact:
  "2 \<le> i \<Longrightarrow>
   running_average_from exact_arith m i vs
     = (m * (real_of_int i - 1) + sum_list vs) / (real_of_int i - 1 + real (length vs))"
proof (induction vs arbitrary: m i)
  case Nil
  then show ?case by simp
next
  case (Cons v vs)
  from Cons.prems have i: "real_of_int i \<noteq> 0" by simp
  have step: "running_update exact_arith m v i = (m * (real_of_int i - 1) + v) / real_of_int i"
    by (simp add: running_update_def exact_arith_def)
  from Cons.prems have "2 \<le> i + 1" by simp
  from Cons.IH[OF this, of "running_update exact_arith m v i"] i show ?case
    by (simp add: step add.assoc)
qed

lemma running_average_exact:
  "vs \<noteq> [] \<Longrightarrow> running_average exact_arith vs = Some (sum_list vs / real (length vs))"
proof -
  assume "vs \<noteq> []"
  then obtain v rest where "vs = v # rest" by (cases vs) auto
  then show ?thesis
    using running_average_from_exact[of 2 v rest]
    by (simp add: running_average_def add.commute)
qed

lemma evaluate_loop_invariant:
  assumes "\<forall>b \<in> set rest. distinct (map fst (batch_metrics forward calc b))
                           \<and> set (map fst (batch_metrics forward calc b)) = K"
    and "pre \<noteq> []"
    and "distinct (map fst metrics)"
    and "set (map fst metrics) = K"
    and "\<forall>k \<in> K. map_of metrics k
           = running_average ar (metric_values (batch_metrics forward calc) pre k)"
  shows "\<exists>m'. evaluate_loop ar forward calc rest (length pre) metrics = Inr m'
           \<and> map fst m' = map fst metrics
           \<and> (\<forall>k \<in> K. map_of m' k
                 = running_average ar (metric_values (batch_metrics forward calc) (pre @ rest) k))"
  using assms
proof (induction rest arbitrary: pre metrics)
  case Nil
  then show ?case by simp
next
  case (Cons b rest)
  let ?ms = "batch_metrics forward calc"
  let ?it = "int (length pre) + 1"
  from Cons.prems(1) have db: "distinct (map fst (?ms b))" and kb: "set (map fst (?ms b)) = K"
    and rest: "\<forall>b \<in> set rest. distinct (map fst (?ms b)) \<and> set (map fst (?ms b)) = K"
    by auto
  have "\<exists>m1. update_metrics ar metrics (?ms b) ?it = Inr m1 \<and> map fst m1 = map fst metrics
          \<and> (\<forall>k \<in> K. map_of m1 k = running_average ar (metric_values ?ms (pre @ [b]) k))"
  proof (cases "metrics = []")
    case True
    with Cons.prems(4) have "K = {}" by simp
    with kb have "?ms b = []" by simp
    with True \<open>K = {}\<close> show ?thesis by (simp add: update_metrics_def dict_update_def)
  next
    case False
    from kb Cons.prems(4) have "set (map fst (?ms b)) \<subseteq> set (map fst metrics)" by simp
    from update_existing_ok[OF db this, of ar ?it] obtain m1 where
      m1: "update_existing ar metrics (?ms b) ?it = Inr m1" "map fst m1 = map fst metrics"
      "\<forall>k. map_of m1 k =
                (case map_of (?ms b) k of
                   None \<Rightarrow> map_of metrics k
                 | Some v \<Rightarrow> Some (running_update ar (the (map_of metrics k)) v ?it))"
      by blast
    have "\<forall>k \<in> K. map_of m1 k = running_average ar (metric_values ?ms (pre @ [b]) k)"
    proof
      fix k assume k: "k \<in> K"
      with kb have "k \<in> fst ` set (?ms b)" by simp
      then obtain v where v: "map_of (?ms b) k = Some v"
        by (metis map_of_eq_None_iff not_Some_eq)
      from k Cons.prems(5) have old: "map_of metrics k = running_average ar (metric_values ?ms pre k)"
        by blast
      from Cons.prems(2) have ne: "metric_values ?ms pre k \<noteq> []" by (simp add: metric_values_def)
      have "metric_values ?ms (pre @ [b]) k = metric_values ?ms pre k @ [v]"
        using v by (simp add: metric_values_def)
      then have "running_average ar (metric_values ?ms (pre @ [b]) k)
          = Some (running_update ar (the (running_average ar (metric_values ?ms pre k))) v
                    (int (length (metric_values ?ms pre k)) + 1))"
        by (simp only: running_average_snoc[OF ne])
      moreover have "length (metric_values ?ms pre k) = length pre" by (simp add: metric_values_def)
      moreover from m1(3) v old
      have "map_of m1 k = Some (running_update ar (the (running_average ar (metric_values ?ms pre k))) v ?it)"
        by simp
      ultimately show "map_of m1 k = running_average ar (metric_values ?ms (pre @ [b]) k)"
        by simp
    qed
    with m1(1,2) False show ?thesis by (simp add: update_metrics_def)
  qed
  then obtain m1 where m1: "update_metrics ar metrics (?ms b) ?it = Inr m1"
    "map fst m1 = map fst metrics"
    "\<forall>k \<in> K. map_of m1 k = running_average ar (metric_values ?ms (pre @ [b]) k)"
    by blast
  have "pre @ [b] \<noteq> []" by simp
  moreover from m1(2) Cons.prems(3) have "distinct (map fst m1)" by simp
  moreover from m1(2) Cons.prems(4) have "set (map fst m1) = K" by simp
  ultimately obtain m' where m': "evaluate_loop ar forward calc rest (length (pre @ [b])) m1 = Inr m'"
    "map fst m' = map fst m1"
    "\<forall>k \<in> K. map_of m' k = running_average ar (metric_values ?ms ((pre @ [b]) @ rest) k)"
    using Cons.IH[OF rest, of "pre @ [b]" m1] m1(3) by blast
  have "evaluate_loop ar forward calc (b # rest) (length pre) metrics
          = evaluate_loop ar forward calc rest (length pre + 1) m1"
    using m1(1) by (simp add: and_then_def batch_metrics_def)
  with m' m1(2) show ?case by simp
qed


text \<open>
  Three batches whose metric is the \<open>float\<close> 0.1, that is \<open>3602879701896397 / 2^55\<close>:
  \<open>evaluate\<close> returns \<open>7205759403792795 / 2^56\<close>, which Python prints as
  0.10000000000000002.  It is not the arithmetic mean of the three values, which is the
  value itself: the sum of the third iteration is rounded.
\<close>

theorem evaluate_mean_counterexample:
  "BaseTrainable_evaluate binary64 (\<lambda>b. b) (\<lambda>b out. [(''acc'', out)])
       [Finite 3602879701896397 (- 55), Finite 3602879701896397 (- 55),
        Finite 3602879701896397 (- 55)]
     = Inr [(''acc'', Finite 7205759403792795 (- 56))]
   \<and> double_real (Finite 3602879701896397 (- 55)) = Some (3602879701896397 / 2 ^ 55)
   \<and> double_real (Finite 7205759403792795 (- 56))
       \<noteq> Some ((3602879701896397 / 2 ^ 55 + 3602879701896397 / 2 ^ 55
                + 3602879701896397 / 2 ^ 55) / 3)"
proof (intro conjI)
  show "BaseTrainable_evaluate binary64 (\<lambda>b. b) (\<lambda>b out. [(''acc'', out)])
       [Finite 3602879701896397 (- 55), Finite 3602879701896397 (- 55),
        Finite 3602879701896397 (- 55)]
     = Inr [(''acc'', Finite 7205759403792795 (- 56))]"
    by code_simp
  show "double_real (Finite 3602879701896397 (- 55)) = Some (3602879701896397 / 2 ^ 55)"
    by simp
  show "double_real (Finite 7205759403792795 (- 56))
       \<noteq> Some ((3602879701896397 / 2 ^ 55 + 3602879701896397 / 2 ^ 55
                + 3602879701896397 / 2 ^ 55) / 3)"
    by simp
qed


text \<open>
  C3, amended.  For a dataset of \<open>n\<close> batches whose metric dictionaries all have the same
  keys \<open>K\<close> (each key once, as in any dictionary), \<open>BaseTrainable.evaluate\<close> returns a
  dictionary with the keys of the first batch, in its order, that maps every key to the
  running average of the \<open>n\<close> values of that metric: the first value, updated with each
  further value by \<open>(metrics[m] * (iterations - 1) + new_metrics[m]) / iterations\<close>, in the
  arithmetic of the metric values.  This holds after every iteration
  (\<open>evaluate_loop_invariant\<close>), and without batches the result is the empty dictionary.
  In exact arithmetic the running average of values is their arithmetic mean.
\<close>

theorem evaluate_running_average:
  assumes "\<forall>b \<in> set dataset. distinct (map fst (batch_metrics forward calc b))
                              \<and> set (map fst (batch_metrics forward calc b)) = K"
  shows "(\<exists>metrics. BaseTrainable_evaluate ar forward calc dataset = Inr metrics
            \<and> (if dataset = [] then metrics = []
                else map fst metrics = map fst (batch_metrics forward calc (hd dataset))
                     \<and> (\<forall>k \<in> K. map_of metrics k
                           = running_average ar
                               (metric_values (batch_metrics forward calc) dataset k))))
       \<and> (\<forall>vs. vs \<noteq> [] \<longrightarrow>
             running_average exact_arith vs = Some (sum_list vs / real (length vs)))"
proof (intro conjI allI impI)
  fix vs :: "real list" assume "vs \<noteq> []"
  then show "running_average exact_arith vs = Some (sum_list vs / real (length vs))"
    by (rule running_average_exact)
next
  show "\<exists>metrics. BaseTrainable_evaluate ar forward calc dataset = Inr metrics
            \<and> (if dataset = [] then metrics = []
                else map fst metrics = map fst (batch_metrics forward calc (hd dataset))
                     \<and> (\<forall>k \<in> K. map_of metrics k
                           = running_average ar
                               (metric_values (batch_metrics forward calc) dataset k)))"
  proof (cases dataset)
    case Nil
    then show ?thesis by (simp add: BaseTrainable_evaluate_def)
  next
    case (Cons b rest)
    let ?ms = "batch_metrics forward calc"
    from assms Cons have db: "distinct (map fst (?ms b))" and kb: "set (map fst (?ms b)) = K"
      and rest: "\<forall>b \<in> set rest. distinct (map fst (?ms b)) \<and> set (map fst (?ms b)) = K"
      by auto
    from db have first: "update_metrics ar [] (?ms b) 1 = Inr (?ms b)"
      using dict_update_fresh[of "[]" "?ms b"] by (simp add: update_metrics_def)
    have avg1: "\<forall>k \<in> K. map_of (?ms b) k = running_average ar (metric_values ?ms [b] k)"
    proof
      fix k assume "k \<in> K"
      with kb have "k \<in> fst ` set (?ms b)" by simp
      then obtain v where "map_of (?ms b) k = Some v"
        by (metis map_of_eq_None_iff not_Some_eq)
      then show "map_of (?ms b) k = running_average ar (metric_values ?ms [b] k)"
        by (simp add: metric_values_def running_average_def)
    qed
    have "[b] \<noteq> []" by simp
    from evaluate_loop_invariant[OF rest this db kb avg1] obtain m' where
      m': "evaluate_loop ar forward calc rest (length [b]) (?ms b) = Inr m'"
       "map fst m' = map fst (?ms b)"
       "\<forall>k \<in> K. map_of m' k = running_average ar (metric_values ?ms ([b] @ rest) k)"
      by blast
    have "BaseTrainable_evaluate ar forward calc dataset
            = evaluate_loop ar forward calc rest 1 (?ms b)"
      using first Cons by (simp add: BaseTrainable_evaluate_def and_then_def batch_metrics_def)
    with m' Cons show ?thesis by simp
  qed
qed


text \<open>
  Three batches with the \<open>float\<close> accuracies 1, 3 and 8: here no operation rounds, and
  the result is 4, as in exact arithmetic.
\<close>

theorem evaluate_running_average_witness:
  "BaseTrainable_evaluate binary64 (\<lambda>b. b) (\<lambda>b out. [(''acc'', out)])
       [Finite 1 0, Finite 3 0, Finite 8 0]
     = Inr [(''acc'', Finite 4503599627370496 (- 50))]
   \<and> double_real (Finite 4503599627370496 (- 50)) = Some 4
   \<and> running_average exact_arith [1, 3, 8] = Some 4"
proof -
  let ?f = "\<lambda>b :: double. b" and ?c = "\<lambda>(b :: double) (out :: double). [(''acc'', out)]"
  let ?ds = "[Finite 1 0, Finite 3 0, Finite 8 0]"
  have h: "\<forall>b \<in> set ?ds. distinct (map fst (batch_metrics ?f ?c b))
             \<and> set (map fst (batch_metrics ?f ?c b)) = {''acc''}"
    by (simp add: batch_metrics_def)
  note t = evaluate_running_average[OF h, of binary64]
  have v: "running_average binary64 (metric_values (batch_metrics ?f ?c) ?ds ''acc'')
             = Some (Finite 4503599627370496 (- 50))"
    by code_simp
  from t[THEN conjunct1] obtain metrics where
    m: "BaseTrainable_evaluate binary64 ?f ?c ?ds = Inr metrics
        \<and> (if ?ds = [] then metrics = []
            else map fst metrics = map fst (batch_metrics ?f ?c (hd ?ds))
                 \<and> (\<forall>k \<in> {''acc''}. map_of metrics k
                       = running_average binary64 (metric_values (batch_metrics ?f ?c) ?ds k)))" ..
  from m have m1: "BaseTrainable_evaluate binary64 ?f ?c ?ds = Inr metrics" by (rule conjunct1)
  from m have rest: "if ?ds = [] then metrics = []
            else map fst metrics = map fst (batch_metrics ?f ?c (hd ?ds))
                 \<and> (\<forall>k \<in> {''acc''}. map_of metrics k
                       = running_average binary64 (metric_values (batch_metrics ?f ?c) ?ds k))"
    by (rule conjunct2)
  from rest have keys: "map fst metrics = [''acc'']" by (simp add: batch_metrics_def)
  from rest have "map_of metrics ''acc''
      = running_average binary64 (metric_values (batch_metrics ?f ?c) ?ds ''acc'')"
    by simp
  then have val: "map_of metrics ''acc'' = Some (Finite 4503599627370496 (- 50))"
    by (simp only: v)
  from keys obtain x where "metrics = [(''acc'', x)]" by (cases metrics) auto
  with val have "metrics = [(''acc'', Finite 4503599627370496 (- 50))]" by simp
  moreover from t[THEN conjunct2] have "running_average exact_arith [1, 3, 8] = Some 4" by simp
  ultimately show ?thesis using m1 by simp
qed


subsection \<open>The training loop of \<open>fit\<close>\<close>

text \<open>
  No call of \<open>fit\<close> steps the optimizer, whatever the datasets, the number of epochs
  and the callbacks; a successful \<open>train_step\<close> does.
\<close>

lemma fit_batch_no_step:
  "OptimizerStep \<notin> set tr \<Longrightarrow> OptimizerStep \<notin> set (snd (fit_batch ar self cb epoch it inputs tr))"
  by (simp add: fit_batch_def backward_def split: sum.splits)

lemma fit_batches_no_step:
  "OptimizerStep \<notin> set tr \<Longrightarrow>
   OptimizerStep \<notin> set (snd (fit_batches ar self cb epoch it ds train_log tr))"
proof (induction ds arbitrary: it train_log tr)
  case Nil
  then show ?case by simp
next
  case (Cons b ds)
  obtain r tr' where r: "fit_batch ar self cb epoch it b tr = (r, tr')"
    by (cases "fit_batch ar self cb epoch it b tr")
  with fit_batch_no_step[OF Cons.prems, of ar self cb epoch it b]
  have "OptimizerStep \<notin> set tr'" by simp
  with Cons.IH r show ?case by (cases r) simp_all
qed

lemma fit_validate_no_step:
  "OptimizerStep \<notin> set tr \<Longrightarrow> OptimizerStep \<notin> set (snd (fit_validate ar self cb epoch vd tr))"
  by (simp add: fit_validate_def StandardClassifier_evaluate_def split: sum.splits)

lemma fit_epochs_no_step:
  "OptimizerStep \<notin> set tr \<Longrightarrow>
   OptimizerStep \<notin> set (snd (fit_epochs ar self ds vd scb ecb es train_log validation_log tr))"
proof (induction es arbitrary: train_log validation_log tr)
  case Nil
  then show ?case by simp
next
  case (Cons epoch es)
  obtain r tr1 where r: "fit_batches ar self scb epoch 1 ds train_log tr = (r, tr1)"
    by (cases "fit_batches ar self scb epoch 1 ds train_log tr")
  with fit_batches_no_step[OF Cons.prems, of ar self scb epoch 1 ds train_log]
  have t1: "OptimizerStep \<notin> set tr1" by simp
  show ?case
  proof (cases r)
    case (Inl e)
    with r t1 show ?thesis by simp
  next
    case (Inr tl)
    show ?thesis
    proof (cases vd)
      case None
      with r Inr Cons.IH[OF t1] show ?thesis by simp
    next
      case (Some v)
      obtain r2 tr2 where r2: "fit_validate ar self ecb epoch v tr1 = (r2, tr2)"
        by (cases "fit_validate ar self ecb epoch v tr1")
      with fit_validate_no_step[OF t1, of ar self ecb epoch v]
      have "OptimizerStep \<notin> set tr2" by simp
      with r Inr Some r2 Cons.IH show ?thesis by (cases r2) simp_all
    qed
  qed
qed

lemma fit_never_steps_optimizer:
  "OptimizerStep \<notin> set tr \<Longrightarrow>
   OptimizerStep \<notin> set (snd (fit ar self training epochs validation step_cb epoch_cb tr))"
  by (simp add: fit_def fit_epochs_no_step)

lemma train_step_steps_optimizer:
  "fst (StandardClassifier_train_step self inputs tr) = Inr m \<Longrightarrow>
   OptimizerStep \<in> set (snd (StandardClassifier_train_step self inputs tr))"
  by (auto simp: StandardClassifier_train_step_def BaseTrainable_train_step_def
        backward_def split: sum.splits)


text \<open>
  C1. For every epoch and batch, the loop of \<open>fit\<close> is claimed to compute the forward
  pass and the loss, backpropagate and step the optimizer once, before metrics and
  logging.  On one epoch over a dataset of one batch, \<open>fit\<close> zeroes the gradients
  and backpropagates the loss, and never steps the optimizer; \<open>train_step\<close> on the
  same batch does, after the same backpropagation.
\<close>


theorem fit_does_not_step_optimizer:
  "snd (fit binary64 example_classifier [[1, 2]] 1 None False False [])
     = [ZeroGrad, LossBackward (Finite (- 1) 0)]
   \<and> snd (StandardClassifier_train_step example_classifier [1, 2] [])
     = [ClassifierTrain True, ZeroGrad, LossBackward (Finite (- 1) 0), OptimizerStep]"
  by code_simp


subsection \<open>The assertions of the constructors\<close>

lemma set_optimizer_no_assertion:
  "fst (set_optimizer env optimizer self) \<noteq> Inl AssertionError"
  by (cases optimizer)
     (simp_all add: set_optimizer_def parameters_def split: klass.splits option.splits sum.splits)

lemma init_not_bool_or_str:
  "\<not> is_bool_or_str cuda \<Longrightarrow>
   BaseTrainable_init env optimizer scheduler cuda kwargs self
     = (Inl AssertionError, self\<lparr>attr_cuda := Some cuda\<rparr>)"
  by (cases cuda) (simp_all add: BaseTrainable_init_def)

lemma init_bool_or_str:
  assumes "is_bool_or_str cuda"
  shows "BaseTrainable_init env optimizer scheduler cuda kwargs self =
     (case torch_device env (device_name cuda) of
        None \<Rightarrow> (Inl RuntimeError, self\<lparr>attr_cuda := Some cuda\<rparr>)
      | Some d \<Rightarrow>
          (case build_network
                  (self\<lparr>attr_cuda := Some cuda, attr_device := Some d,
                        attr_scheduler := Some scheduler\<rparr>) kwargs of
             (Inl e, self3) \<Rightarrow> (Inl e, self3)
           | (Inr u, self3) \<Rightarrow>
               set_optimizer env optimizer
                 (move_new_members env
                    (members (self\<lparr>attr_cuda := Some cuda, attr_device := Some d,
                                   attr_scheduler := Some scheduler\<rparr>)) self3)))"
  using assms
  by (cases cuda)
     (simp_all add: BaseTrainable_init_def Let_def
        cong: option.case_cong prod.case_cong sum.case_cong)

lemma build_network_assertion:
  "(fst (build_network self kwargs) = Inl AssertionError)
     = (klass_of self = StandardClassifierClass \<and> kwargs = None)"
  by (cases "klass_of self"; cases kwargs)
     (simp_all add: build_network_def BaseTrainable_build_network_def
        StandardClassifier_build_network_def)


text \<open>
  \<open>BaseTrainable.__init__\<close> with \<open>cuda=3\<close> raises AssertionError and leaves \<open>self.cuda\<close>
  assigned; with \<open>cuda=False\<close>, on a \<open>StandardClassifier\<close> without classifier, it raises
  AssertionError too, out of \<open>build_network\<close>.
\<close>

theorem init_assertion_counterexample:
  "fst (BaseTrainable_init example_env None None (PyInt 3) None (new_object BaseTrainableClass))
     = Inl AssertionError
   \<and> snd (BaseTrainable_init example_env None None (PyInt 3) None (new_object BaseTrainableClass))
     \<noteq> new_object BaseTrainableClass
   \<and> fst (BaseTrainable_init example_env None None (PyBool False) None
            (new_object StandardClassifierClass))
     = Inl AssertionError"
  by (simp add: BaseTrainable_init_def new_object_def example_env_def build_network_def
        StandardClassifier_build_network_def members_def)


text \<open>
  C7, amended.  \<open>BaseTrainable.__init__\<close> raises AssertionError if and only if \<open>cuda\<close>
  is neither a bool nor a str, or the device was built and the \<open>build_network\<close> it calls
  is that of \<open>StandardClassifier\<close> with no classifier.  When \<open>cuda\<close> is neither a bool
  nor a str the object is left with \<open>self.cuda\<close> assigned and nothing else changed.
  \<open>StandardClassifier.build_network\<close> raises AssertionError if and only if the
  classifier is \<open>None\<close>, and then leaves the object as it was.  In each case the
  exception is the result of the call: nothing is retried.
\<close>

theorem init_assertions:
  "(fst (BaseTrainable_init env optimizer scheduler cuda kwargs self) = Inl AssertionError)
     = (\<not> is_bool_or_str cuda
        \<or> (torch_device env (device_name cuda) \<noteq> None
            \<and> klass_of self = StandardClassifierClass \<and> kwargs = None))
   \<and> (\<not> is_bool_or_str cuda \<longrightarrow>
        snd (BaseTrainable_init env optimizer scheduler cuda kwargs self)
          = self\<lparr>attr_cuda := Some cuda\<rparr>)
   \<and> (fst (StandardClassifier_build_network self kwargs) = Inl AssertionError) = (kwargs = None)
   \<and> (kwargs = None \<longrightarrow> snd (StandardClassifier_build_network self kwargs) = self)"
proof (intro conjI)
  show "(fst (BaseTrainable_init env optimizer scheduler cuda kwargs self) = Inl AssertionError)
     = (\<not> is_bool_or_str cuda
        \<or> (torch_device env (device_name cuda) \<noteq> None
            \<and> klass_of self = StandardClassifierClass \<and> kwargs = None))"
  proof (cases "is_bool_or_str cuda")
    case False
    then show ?thesis by (simp add: init_not_bool_or_str)
  next
    case True
    show ?thesis
    proof (cases "torch_device env (device_name cuda)")
      case None
      with True show ?thesis by (simp add: init_bool_or_str)
    next
      case (Some d)
      let ?self2 = "self\<lparr>attr_cuda := Some cuda, attr_device := Some d,
                        attr_scheduler := Some scheduler\<rparr>"
      obtain r self3 where b: "build_network ?self2 kwargs = (r, self3)"
        by (cases "build_network ?self2 kwargs")
      from build_network_assertion[of ?self2 kwargs] b
      have a: "(r = Inl AssertionError) = (klass_of self = StandardClassifierClass \<and> kwargs = None)"
        by simp
      show ?thesis
      proof (cases r)
        case (Inl e)
        with True Some b a show ?thesis by (simp add: init_bool_or_str)
      next
        case (Inr u)
        with True Some b a show ?thesis
          by (simp add: init_bool_or_str set_optimizer_no_assertion)
      qed
    qed
  qed
  show "\<not> is_bool_or_str cuda \<longrightarrow>
        snd (BaseTrainable_init env optimizer scheduler cuda kwargs self)
          = self\<lparr>attr_cuda := Some cuda\<rparr>"
    by (simp add: init_not_bool_or_str)
  show "(fst (StandardClassifier_build_network self kwargs) = Inl AssertionError) = (kwargs = None)"
    by (cases kwargs) (simp_all add: StandardClassifier_build_network_def)
  show "kwargs = None \<longrightarrow> snd (StandardClassifier_build_network self kwargs) = self"
    by (simp add: StandardClassifier_build_network_def)
qed


text \<open>\<open>cuda=None\<close> on a classifier, and \<open>build_network\<close> without a classifier.\<close>

theorem init_assertions_witness:
  "fst (BaseTrainable_init example_env None None PyNone (Some 5) (new_object StandardClassifierClass))
     = Inl AssertionError
   \<and> snd (BaseTrainable_init example_env None None PyNone (Some 5) (new_object StandardClassifierClass))
     = (new_object StandardClassifierClass)\<lparr>attr_cuda := Some PyNone\<rparr>
   \<and> fst (StandardClassifier_build_network (new_object StandardClassifierClass :: nat trainable) None)
     = Inl AssertionError
   \<and> snd (StandardClassifier_build_network (new_object StandardClassifierClass :: nat trainable) None)
     = new_object StandardClassifierClass"
  using init_assertions[of example_env None None PyNone "Some 5" "new_object StandardClassifierClass"]
    init_assertions[of example_env None None PyNone None "new_object StandardClassifierClass"]
  by simp


section \<open>Properties of the layers\<close>

subsection \<open>ExpandLayer\<close>

text \<open>
  For a negative axis that \<open>tf.expand_dims\<close> accepts, the signature is the shape of
  the result of \<open>call\<close>.  For an axis from 0 on, \<open>call\<close> inserts the new dimension at
  \<open>axis\<close> and the signature has it at \<open>axis + 1\<close>, one place further right; only when
  \<open>axis\<close> is the number of dimensions are both at the end.
\<close>

lemma ExpandLayer_signature_negative_axis:
  assumes "- (int (length (shape x)) + 1) \<le> axis self" and "axis self < 0"
  shows "ExpandLayer_call self x = Inr (x\<lparr>shape := compute_output_signature self (shape x)\<rparr>)"
proof -
  let ?d = "int (length (shape x))"
  from assms have "nat (?d + 1 + axis self) \<le> length (shape x)" by simp
  with assms show ?thesis
    by (simp add: ExpandLayer_call_def expand_dims_def compute_output_signature_def
          py_insert_def Let_def min_def add.commute add.left_commute)
qed

lemma ExpandLayer_signature_nonnegative_axis:
  assumes "0 \<le> axis self" and "axis self \<le> int (length (shape x))"
  shows "ExpandLayer_call self x
           = Inr (x\<lparr>shape := take (nat (axis self)) (shape x) @ [1] @ drop (nat (axis self)) (shape x)\<rparr>)"
    and "compute_output_signature self (shape x)
           = take (nat (axis self) + 1) (shape x) @ [1] @ drop (nat (axis self) + 1) (shape x)"
proof -
  from assms show "ExpandLayer_call self x
           = Inr (x\<lparr>shape := take (nat (axis self)) (shape x) @ [1] @ drop (nat (axis self)) (shape x)\<rparr>)"
    by (simp add: ExpandLayer_call_def expand_dims_def Let_def)
  have "nat (min (axis self + 1) (int (length (shape x)))) = min (nat (axis self) + 1) (length (shape x))"
    using assms by arith
  moreover have "take (min n (length xs)) xs = take n xs \<and> drop (min n (length xs)) xs = drop n xs"
    for n and xs :: "nat list"
    by (simp add: min_def)
  ultimately show "compute_output_signature self (shape x)
           = take (nat (axis self) + 1) (shape x) @ [1] @ drop (nat (axis self) + 1) (shape x)"
    using assms by (simp add: compute_output_signature_def py_insert_def Let_def)
qed


text \<open>
  C9. The shape returned by \<open>compute_output_signature\<close> is claimed to be the shape of
  the tensor that \<open>call\<close> returns.  For \<open>axis = 0\<close> and an input of shape (2, 3) the
  signature is (2, 1, 3) and \<open>call\<close> returns a tensor of shape (1, 2, 3).
\<close>

theorem ExpandLayer_signature_differs_at_axis_zero:
  "compute_output_signature \<lparr>axis = 0\<rparr> [2, 3] = [2, 1, 3]
   \<and> map_sum id shape (ExpandLayer_call \<lparr>axis = 0\<rparr> \<lparr>shape = [2, 3], data = replicate 6 v\<rparr>)
       = Inr [1, 2, 3]"
  by (simp add: compute_output_signature_def py_insert_def ExpandLayer_call_def expand_dims_def)


subsection \<open>AttentionLSTMIn\<close>

text \<open>
  With style \<open>'global'\<close> and \<open>units = 0\<close> the constructor does not complete: \<open>style\<close> is
  stored, and the constructor of the base class, called last, raises ValueError.
\<close>

theorem AttentionLSTMIn_init_counterexample:
  "fst (AttentionLSTMIn_init example_LSTM_init 0 1 ''global'' AU_None 2 new_layer)
     = Inl ValueError
   \<and> style (snd (AttentionLSTMIn_init example_LSTM_init 0 1 ''global'' AU_None 2 new_layer))
     = Some ''global''
   \<and> lstm (snd (AttentionLSTMIn_init example_LSTM_init 0 1 ''global'' AU_None 2 new_layer))
     = None"
  by (simp add: AttentionLSTMIn_init_def ATT_STYLES_def example_LSTM_init_def new_layer_def)


text \<open>
  C10, amended.  \<open>AttentionLSTMIn.__init__\<close> raises TypeError by its own check if and
  only if \<open>style\<close> is neither \<open>'local'\<close> nor \<open>'global'\<close>, and then neither assigns
  \<open>style\<close> nor calls the constructor of the base class.  For these two values it stores
  \<open>style\<close> and ends with the constructor of the base class: it completes if that one
  does, and raises what that one raises.  When \<open>alignment_units\<close> is a list or tuple,
  \<open>alignment_depth\<close> is its length whatever the \<open>alignment_depth\<close> argument (otherwise it
  is the argument, or 0 when that is negative).
\<close>

theorem AttentionLSTMIn_init_outcome:
  "(if style_arg = ''local'' \<or> style_arg = ''global''
    then fst (AttentionLSTMIn_init LSTM_init units depth style_arg au implementation self)
           = map_sum id (\<lambda>k. ()) (LSTM_init units (if 0 < implementation then implementation else 2))
         \<and> style (snd (AttentionLSTMIn_init LSTM_init units depth style_arg au implementation self))
           = Some style_arg
    else fst (AttentionLSTMIn_init LSTM_init units depth style_arg au implementation self)
           = Inl TypeError
         \<and> style (snd (AttentionLSTMIn_init LSTM_init units depth style_arg au implementation self))
           = style self
         \<and> lstm (snd (AttentionLSTMIn_init LSTM_init units depth style_arg au implementation self))
           = lstm self)
   \<and> (case au of
         AU_Seq xs \<Rightarrow>
           alignment_depth (snd (AttentionLSTMIn_init LSTM_init units depth style_arg au implementation self))
             = Some (int (length xs))
       | _ \<Rightarrow>
           alignment_depth (snd (AttentionLSTMIn_init LSTM_init units depth style_arg au implementation self))
             = Some (max 0 depth))"
  by (cases au; cases "LSTM_init units (if 0 < implementation then implementation else 2)")
     (simp_all add: AttentionLSTMIn_init_def ATT_STYLES_def Let_def)


text \<open>
  Style \<open>'global'\<close> with \<open>alignment_units = [4, 2]\<close> and \<open>alignment_depth = 5\<close>: the depth
  stored is 2.  An unknown style raises TypeError.
\<close>

theorem AttentionLSTMIn_init_outcome_witness:
  "AttentionLSTMIn_init example_LSTM_init 8 5 ''global'' (AU_Seq [4, 2]) 0 new_layer
     = (Inr (), \<lparr>alignment_units = Some [4, 2], alignment_depth = Some 2, style = Some ''global'',
                lstm = Some (8, 2)\<rparr>)
   \<and> fst (AttentionLSTMIn_init example_LSTM_init 8 5 ''nowhere'' (AU_Seq [4, 2]) 0 new_layer)
     = Inl TypeError"
  using AttentionLSTMIn_init_outcome[of "''global''" example_LSTM_init 8 5 "AU_Seq [4, 2]" 0 new_layer]
    AttentionLSTMIn_init_outcome[of "''nowhere''" example_LSTM_init 8 5 "AU_Seq [4, 2]" 0 new_layer]
  by (simp add: AttentionLSTMIn_init_def ATT_STYLES_def example_LSTM_init_def new_layer_def)


section \<open>Properties of the datasets\<close>

text \<open>
  C6. For every dataset with a registered transform, the training, validation and
  testing subsets of every triple that \<open>loso()\<close> and \<open>lmso()\<close> yield and that \<open>split()\<close>
  returns (also \<open>split()\<close> of a testing subset of \<open>loso()\<close>) have the transform in
  \<open>_transforms\<close>, and after \<open>clear_transforms()\<close> it is not there.
\<close>

theorem transforms_survive_splitting:
  assumes "t \<in> set (transforms ds)"
  shows "(\<forall>tr \<in> set (loso by_person ds). all_registered t tr)
       \<and> (\<forall>tr \<in> set (lmso by_folds ds). all_registered t tr)
       \<and> all_registered t (split by_ids ds)
       \<and> (\<forall>tr \<in> set (loso by_person ds). all_registered t (split by_ids (snd (snd tr))))
       \<and> t \<notin> set (transforms (clear_transforms ds))"
  using assms
  by (auto simp: loso_def lmso_def split_def subsets_def subset_of_def all_registered_def
        clear_transforms_def)


text \<open>
  A dataset of three trials with \<open>ZScore\<close> added, divided leaving each trial out in
  turn.
\<close>

theorem transforms_survive_splitting_witness:
  "''ZScore'' \<in> set (transforms (add_transform ''ZScore'' \<lparr>trials = [1, 2, 3 :: nat], transforms = []\<rparr>))
   \<and> list_all (all_registered ''ZScore'')
        (loso (\<lambda>xs. map (\<lambda>x. (removeAll x xs, [], [x])) xs)
           (add_transform ''ZScore'' \<lparr>trials = [1, 2, 3 :: nat], transforms = []\<rparr>))
   \<and> length (loso (\<lambda>xs. map (\<lambda>x. (removeAll x xs, [], [x])) xs)
           (add_transform ''ZScore'' \<lparr>trials = [1, 2, 3 :: nat], transforms = []\<rparr>)) = 3
   \<and> all_registered ''ZScore''
        (split (\<lambda>xs. (tl xs, [], [hd xs]))
           (add_transform ''ZScore'' \<lparr>trials = [1, 2, 3 :: nat], transforms = []\<rparr>))
   \<and> ''ZScore'' \<notin> set (transforms (clear_transforms
           (add_transform ''ZScore'' \<lparr>trials = [1, 2, 3 :: nat], transforms = []\<rparr>)))"
proof -
  let ?ds = "add_transform ''ZScore'' \<lparr>trials = [1, 2, 3 :: nat], transforms = []\<rparr>"
  have h: "''ZScore'' \<in> set (transforms ?ds)" by (simp add: add_transform_def)
  from transforms_survive_splitting[OF h,
      of "\<lambda>xs. map (\<lambda>x. (removeAll x xs, [], [x])) xs" "\<lambda>xs. []" "\<lambda>xs. (tl xs, [], [hd xs])"]
  show ?thesis using h by (simp add: list_all_iff loso_def add_transform_def)
qed

end
